theory Spec2Isabelle
  imports Complex_Main "HOL-Library.Word"
begin

section \<open>The PDF format plugin of imagedata\_format\_pdf\<close>

text \<open>
  A shallow embedding of \<^verbatim>\<open>src/imagedata_format_pdf/pdfplugin.py\<close> and of the
  availability probe in \<^verbatim>\<open>src/imagedata_format_pdf/__init__.py\<close>.
  Python exceptions are values of the type \<open>error\<close>, one constructor per exception
  class, carrying the message. A method that mutates \<^verbatim>\<open>self\<close> or \<^verbatim>\<open>hdr\<close>
  returns the mutated objects next to its result, also when it raises.
  Strings are HOL strings; the built-in string operations are modelled on ASCII text.
\<close>

subsection \<open>Python values, exceptions and built-ins\<close>

type_synonym bytes = "8 word list"

datatype error =
    is_OSError: OSError string
  | is_ValueError: ValueError string
  | is_AttributeError: AttributeError string
  | is_NameError: NameError string
  | is_IndexError: IndexError string
  | is_NotImageError: NotImageError string
  | is_WriteNotImplemented: WriteNotImplemented string
  | is_RendererError: RendererError string

datatype pyval = PyNone | PyBool bool | PyInt int | PyStr string

text \<open>Truth value of an object, as \<^verbatim>\<open>and\<close> and \<^verbatim>\<open>if\<close> test it.\<close>

fun truthy :: "pyval \<Rightarrow> bool" where
  "truthy PyNone = False"
| "truthy (PyBool b) = b"
| "truthy (PyInt i) = (i \<noteq> 0)"
| "truthy (PyStr s) = (s \<noteq> [])"

fun type_name :: "pyval \<Rightarrow> string" where
  "type_name PyNone = ''NoneType''"
| "type_name (PyBool b) = ''bool''"
| "type_name (PyInt i) = ''int''"
| "type_name (PyStr s) = ''str''"

text \<open>A name between apostrophes, as the interpreter's messages write it.\<close>

definition quoted :: "string \<Rightarrow> string" where
  "quoted s = [CHR 0x27] @ s @ [CHR 0x27]"

text \<open>\<^verbatim>\<open>s.split(sep)\<close> for a one-character separator: never an empty list.\<close>

fun str_split :: "char \<Rightarrow> string \<Rightarrow> string list" where
  "str_split sep [] = [[]]"
| "str_split sep (c # cs) =
     (if c = sep then [] # str_split sep cs
      else (case str_split sep cs of
              [] \<Rightarrow> [[c]]
            | p # ps \<Rightarrow> (c # p) # ps))"

text \<open>\<^verbatim>\<open>s.lower()\<close>.\<close>

definition char_lower :: "char \<Rightarrow> char" where
  "char_lower c =
     (let n = (of_char c :: nat)
      in if 65 \<le> n \<and> n \<le> 90 then char_of (n + 32) else c)"

definition lower :: "string \<Rightarrow> string" where
  "lower s = map char_lower s"

text \<open>Decimal text of a number, as \<^verbatim>\<open>'{}'.format(n)\<close> writes it.\<close>

fun str_of_nat :: "nat \<Rightarrow> string" where
  "str_of_nat n =
     (if n < 10 then [char_of (48 + n)]
      else str_of_nat (n div 10) @ [char_of (48 + n mod 10)])"

definition str_of_int :: "int \<Rightarrow> string" where
  "str_of_int i = (if i < 0 then CHR ''-'' # str_of_nat (nat (- i)) else str_of_nat (nat i))"

text \<open>
  \<^verbatim>\<open>int(s)\<close> for a string: surrounding whitespace is dropped, then an optional sign
  and decimal digits, where one underscore may stand between two digits.
  \<open>None\<close> is the \<^verbatim>\<open>ValueError\<close> of an invalid literal.
\<close>

definition is_space :: "char \<Rightarrow> bool" where
  "is_space c = ((of_char c :: nat) \<in> {9, 10, 11, 12, 13, 32})"

definition is_digit :: "char \<Rightarrow> bool" where
  "is_digit c = (48 \<le> (of_char c :: nat) \<and> (of_char c :: nat) \<le> 57)"

definition digit_val :: "char \<Rightarrow> nat" where
  "digit_val c = of_char c - 48"

definition strip :: "string \<Rightarrow> string" where
  "strip s = rev (dropWhile is_space (rev (dropWhile is_space s)))"

fun parse_digits :: "nat \<Rightarrow> string \<Rightarrow> nat option" where
  "parse_digits acc [] = Some acc"
| "parse_digits acc [c] =
     (if is_digit c then Some (acc * 10 + digit_val c) else None)"
| "parse_digits acc (c # d # cs) =
     (if is_digit c then parse_digits (acc * 10 + digit_val c) (d # cs)
      else if c = CHR ''_'' \<and> is_digit d then parse_digits acc (d # cs)
      else None)"

definition parse_decimal :: "string \<Rightarrow> nat option" where
  "parse_decimal s =
     (case s of
        [] \<Rightarrow> None
      | c # cs \<Rightarrow> if is_digit c then parse_digits (digit_val c) cs else None)"

definition int_of_str :: "string \<Rightarrow> int option" where
  "int_of_str s =
     (case strip s of
        [] \<Rightarrow> None
      | c # cs \<Rightarrow>
          if c = CHR ''-'' then map_option (\<lambda>n. - int n) (parse_decimal cs)
          else if c = CHR ''+'' then map_option int (parse_decimal cs)
          else map_option int (parse_decimal (c # cs)))"

text \<open>
  \<^verbatim>\<open>repr(s)\<close> of a string: between quotation marks when it holds an apostrophe and no
  quotation mark, between apostrophes otherwise; the backslash and the enclosing mark are
  escaped, tab, newline and carriage return are written \<^verbatim>\<open>\t\<close>, \<^verbatim>\<open>\n\<close>, \<^verbatim>\<open>\r\<close>, and any
  other control character as \<^verbatim>\<open>\x\<close> and two hexadecimal digits.
\<close>

definition hex_digit :: "nat \<Rightarrow> char" where
  "hex_digit n = (if n < 10 then char_of (48 + n) else char_of (87 + n))"

definition repr_char :: "char \<Rightarrow> char \<Rightarrow> string" where
  "repr_char q c =
     (let n = (of_char c :: nat)
      in if c = CHR 0x5C then [CHR 0x5C, CHR 0x5C]
         else if c = q then [CHR 0x5C, q]
         else if n = 9 then [CHR 0x5C, CHR ''t'']
         else if n = 10 then [CHR 0x5C, CHR ''n'']
         else if n = 13 then [CHR 0x5C, CHR ''r'']
         else if n < 32 \<or> n = 127 then [CHR 0x5C, CHR ''x'', hex_digit (n div 16), hex_digit (n mod 16)]
         else [c])"

definition py_repr :: "string \<Rightarrow> string" where
  "py_repr s =
     (let q = (if CHR 0x27 \<in> set s \<and> CHR 0x22 \<notin> set s then CHR 0x22 else CHR 0x27)
      in [q] @ concat (map (repr_char q) s) @ [q])"

text \<open>\<^verbatim>\<open>int(x)\<close> for the values an attribute can hold.\<close>

fun py_int :: "pyval \<Rightarrow> error + int" where
  "py_int (PyInt i) = Inr i"
| "py_int (PyBool b) = Inr (if b then 1 else 0)"
| "py_int (PyStr s) =
     (case int_of_str s of
        Some i \<Rightarrow> Inr i
      | None \<Rightarrow> Inl (ValueError (''invalid literal for int() with base 10: '' @ py_repr s)))"
| "py_int PyNone =
     Inl (ValueError (''int() argument must be a string, a bytes-like object or a real number, not ''
                        @ quoted ''NoneType''))"

subsection \<open>The plugin instance and the things it is handed\<close>

text \<open>
  The instance attributes of a \<^verbatim>\<open>PDFPlugin\<close> object: its \<^verbatim>\<open>__dict__\<close>, a map from
  attribute names to values. \<^verbatim>\<open>setattr(self, a, v)\<close> is a map update, reading a
  missing attribute raises \<^verbatim>\<open>AttributeError\<close>. \<^verbatim>\<open>PDFPlugin.__init__\<close> sets none of
  \<^verbatim>\<open>dpi\<close>, \<^verbatim>\<open>rotate\<close>, \<^verbatim>\<open>encapsulate\<close>.
\<close>

type_synonym PDFPlugin = "string \<rightharpoonup> pyval"

definition fresh_plugin :: PDFPlugin where
  "fresh_plugin = Map.empty"

definition getattr :: "PDFPlugin \<Rightarrow> string \<Rightarrow> error + pyval" where
  "getattr self a =
     (case self a of
        Some v \<Rightarrow> Inr v
      | None \<Rightarrow> Inl (AttributeError (quoted ''PDFPlugin'' @ '' object has no attribute '' @ quoted a)))"

text \<open>An open file: what \<^verbatim>\<open>'{}'.format(f)\<close> prints and what \<^verbatim>\<open>f.read()\<close> returns.\<close>

record filehandle =
  repr :: string
  content :: bytes


text \<open>
  A page as the renderer returns it (an RGB image): its height, its width and its
  samples by row, column and channel. Assigning it into an array reads it as an array
  of shape (height, width, 3).
\<close>

record image =
  height :: nat
  width :: nat
  px :: "nat \<Rightarrow> nat \<Rightarrow> nat \<Rightarrow> 8 word"

text \<open>
  A numpy array: its shape, its element type and its elements by index. Only indices
  within the shape are meaningful.
\<close>

datatype dtype = uint8 | float64

record ndarray =
  shape :: "nat list"
  dtype :: dtype
  item :: "nat list \<Rightarrow> 8 word"

definition ndim :: "ndarray \<Rightarrow> nat" where
  "ndim a = length (shape a)"

definition np_zeros :: "nat list \<Rightarrow> dtype \<Rightarrow> ndarray" where
  "np_zeros shp dt = \<lparr>shape = shp, dtype = dt, item = (\<lambda>idx. 0)\<rparr>"

definition str_of_shape :: "nat list \<Rightarrow> string" where
  "str_of_shape shp =
     (case shp of
        [] \<Rightarrow> ''()''
      | [n] \<Rightarrow> ''('' @ str_of_nat n @ '',)''
      | n # ns \<Rightarrow> ''('' @ str_of_nat n @ concat (map (\<lambda>m. '','' @ str_of_nat m) ns) @ '')'')"

text \<open>
  \<^verbatim>\<open>si[i] = img\<close> on a four-dimensional array: the page, read as (height, width, 3),
  is broadcast to the shape of \<^verbatim>\<open>si[i]\<close>; an extent broadcasts when it is equal or 1,
  anything else is numpy's \<^verbatim>\<open>ValueError\<close>. An index beyond the first extent is
  \<^verbatim>\<open>IndexError\<close>.
\<close>

definition setitem :: "ndarray \<Rightarrow> nat \<Rightarrow> image \<Rightarrow> error + ndarray" where
  "setitem si i img =
     (case shape si of
        [n, h, w, c] \<Rightarrow>
          if \<not> i < n
          then Inl (IndexError (''index '' @ str_of_nat i @ '' is out of bounds for axis 0 with size ''
                       @ str_of_nat n))
          else if (height img = h \<or> height img = 1) \<and> (width img = w \<or> width img = 1) \<and> c = 3
          then Inr (si\<lparr>item := (\<lambda>idx.
                 case idx of
                   [p, r, k, ch] \<Rightarrow>
                     if p = i
                     then px img (if height img = 1 then 0 else r) (if width img = 1 then 0 else k) ch
                     else item si idx
                 | _ \<Rightarrow> item si idx)\<rparr>)
          else Inl (ValueError (''could not broadcast input array from shape ''
                       @ str_of_shape [height img, width img, 3] @ '' into shape ''
                       @ str_of_shape [h, w, c]))
      | _ \<Rightarrow> Inl (ValueError ''setting an array element with a sequence.''))"

text \<open>
  \<^verbatim>\<open>np.rot90(si, axes=(1,2))\<close> on a four-dimensional array: the array is flipped
  along axis 2 and axes 1 and 2 are exchanged.
\<close>

definition rot90 :: "ndarray \<Rightarrow> ndarray" where
  "rot90 si =
     (case shape si of
        [n, h, w, c] \<Rightarrow>
          si\<lparr>shape := [n, w, h, c],
             item := (\<lambda>idx.
               case idx of
                 [p, a, b, ch] \<Rightarrow> item si [p, b, w - 1 - a, ch]
               | _ \<Rightarrow> item si idx)\<rparr>
      | _ \<Rightarrow> si)"

text \<open>\<^verbatim>\<open>si.shape = si.shape[1:]\<close> where the leading extent is 1.\<close>

definition drop_leading :: "ndarray \<Rightarrow> ndarray" where
  "drop_leading si = si\<lparr>shape := tl (shape si), item := (\<lambda>idx. item si (0 # idx))\<rparr>"

subsection \<open>The encapsulating DICOM dataset\<close>

record file_meta =
  MediaStorageSOPClassUID :: string
  MediaStorageSOPInstanceUID :: string
  ImplementationClassUID :: string
  TransferSyntaxUID :: string

record FileDataset =
  filename :: string
  meta :: file_meta
  preamble :: bytes
  is_little_endian :: bool
  is_implicit_VR :: bool
  StudyDate :: string
  StudyTime :: string
  ContentDate :: string
  ContentTime :: string
  AcquisitionDateTime :: string
  Manufacturer :: string
  ReferringPhysicianName :: string
  SOPClassUID :: string
  EncapsulatedDocument :: bytes
  MIMETypeOfEncapsulatedDocument :: string
  Modality :: string
  ConversionType :: string
  SpecificCharacterSet :: string
  BurnedInAnnotation :: string
  RecognizableVisualFeatures :: string
  DocumentTitle :: string
  VerificationFlag :: string
  InstanceNumber :: int
  ConceptNameCodeSequence :: "unit list"

subsection \<open>The header the host framework passes in\<close>

datatype axis =
    UniformLengthAxis string int nat real
  | VariableAxis string "string list"

datatype tags = TagList "int list list" | TagDict "(nat \<times> int list) list"

record header =
  spacing :: "real \<times> real \<times> real"
  photometricInterpretation :: string
  color :: bool
  DicomHeaderDict :: "(unit option \<times> unit option \<times> FileDataset) list list"
  tags :: tags
  imagePositions :: "(nat \<times> int list) list"
  orientation :: "int list"
  axes :: "axis list"

subsection \<open>What the plugin reads from its surroundings\<close>

text \<open>
  The module global \<^verbatim>\<open>POPPLER_INSTALLED\<close>, the renderer \<^verbatim>\<open>pdf2image.convert_from_bytes\<close>
  (the pages of a document or the exception it raises), the clock
  (\<^verbatim>\<open>dt.strftime\<close> for \<^verbatim>\<open>dt = datetime.datetime.now()\<close>) and the name that
  \<^verbatim>\<open>tempfile.NamedTemporaryFile\<close> picks for a suffix.
\<close>

record sysenv =
  POPPLER_INSTALLED :: bool
  convert_from_bytes :: "bytes \<Rightarrow> error + image list"
  now_strftime :: "string \<Rightarrow> string"
  NamedTemporaryFile :: "string \<Rightarrow> string"

text \<open>
  The probe of \<^verbatim>\<open>__init__.py\<close>, lines 36 to 42: \<^verbatim>\<open>subprocess.call\<close> either returns
  an exit status or raises \<^verbatim>\<open>OSError\<close> with an errno. The handler compares with
  \<^verbatim>\<open>errno.ENOENT\<close>, and the module does not import \<^verbatim>\<open>errno\<close>.
\<close>

datatype call_outcome = Returned int | RaisedOSError int

definition probe_poppler :: "call_outcome \<Rightarrow> error + bool" where
  "probe_poppler out =
     (case out of
        Returned status \<Rightarrow> Inr True
      | RaisedOSError eno \<Rightarrow> Inl (NameError ''name 'errno' is not defined''))"

subsection \<open>Reading: the options (\<^verbatim>\<open>_read_image\<close>, lines 73 to 87)\<close>

definition legal_attributes :: "string set" where
  "legal_attributes = {''dpi'', ''rotate'', ''encapsulate''}"

text \<open>
  The loop of lines 77 to 82 over the entries of the option string.
  \<^verbatim>\<open>attr,value = expr.split('=')\<close> unpacks exactly two parts; any other number of
  parts is the interpreter's \<^verbatim>\<open>ValueError\<close>.
\<close>

fun pdfopt_loop :: "PDFPlugin \<Rightarrow> string list \<Rightarrow> PDFPlugin \<times> error option" where
  "pdfopt_loop self [] = (self, None)"
| "pdfopt_loop self (expr # rest) =
     (case str_split (CHR ''='') expr of
        [attr, val] \<Rightarrow>
          if attr \<in> legal_attributes
          then pdfopt_loop (self(attr \<mapsto> PyStr val)) rest
          else (self, Some (ValueError (''Unknown attribute '' @ attr @ '' set in psopt'')))
      | [part] \<Rightarrow> (self, Some (ValueError ''not enough values to unpack (expected 2, got 1)''))
      | parts \<Rightarrow> (self, Some (ValueError ''too many values to unpack (expected 2)'')))"

text \<open>Line 76: the loop runs when \<^verbatim>\<open>opts\<close> has a true value under \<^verbatim>\<open>'pdfopt'\<close>.\<close>

definition parse_pdfopt :: "PDFPlugin \<Rightarrow> (string \<rightharpoonup> pyval) \<Rightarrow> PDFPlugin \<times> error option" where
  "parse_pdfopt self opts =
     (case opts ''pdfopt'' of
        None \<Rightarrow> (self, None)
      | Some v \<Rightarrow>
          if \<not> truthy v then (self, None)
          else (case v of
                  PyStr s \<Rightarrow> pdfopt_loop self (str_split (CHR '','') s)
                | _ \<Rightarrow> (self, Some (AttributeError (quoted (type_name v) @ '' object has no attribute ''
                                                        @ quoted ''split'')))))"

text \<open>\<^verbatim>\<open>self.encapsulate.lower()\<close>: the attribute must exist and be a string.\<close>

definition encapsulate_lower :: "PDFPlugin \<Rightarrow> error + string" where
  "encapsulate_lower self =
     (case getattr self ''encapsulate'' of
        Inl e \<Rightarrow> Inl e
      | Inr (PyStr s) \<Rightarrow> Inr (lower s)
      | Inr v \<Rightarrow> Inl (AttributeError (quoted (type_name v) @ '' object has no attribute ''
                                          @ quoted ''lower'')))"

definition int_attr :: "PDFPlugin \<Rightarrow> string \<Rightarrow> error + int" where
  "int_attr self a =
     (case getattr self a of
        Inl e \<Rightarrow> Inl e
      | Inr v \<Rightarrow> py_int v)"

text \<open>
  Lines 73 to 87: \<^verbatim>\<open>dpi\<close> and \<^verbatim>\<open>rotate\<close> are set, the option string is applied,
  the three attributes are coerced and \<^verbatim>\<open>rotate\<close> is checked. \<^verbatim>\<open>encapsulate\<close>
  is not set before the option string is applied.
\<close>

definition read_options :: "PDFPlugin \<Rightarrow> (string \<rightharpoonup> pyval) \<Rightarrow> PDFPlugin \<times> error option" where
  "read_options self0 opts =
     (let self1 = self0(''dpi'' \<mapsto> PyInt 150);
          self2 = self1(''rotate'' \<mapsto> PyInt 0)
      in case parse_pdfopt self2 opts of
           (self3, Some e) \<Rightarrow> (self3, Some e)
         | (self3, None) \<Rightarrow>
             (case int_attr self3 ''dpi'' of
                Inl e \<Rightarrow> (self3, Some e)
              | Inr d \<Rightarrow>
                  let self4 = self3(''dpi'' \<mapsto> PyInt d)
                  in (case int_attr self4 ''rotate'' of
                        Inl e \<Rightarrow> (self4, Some e)
                      | Inr r \<Rightarrow>
                          let self5 = self4(''rotate'' \<mapsto> PyInt r)
                          in (case encapsulate_lower self5 of
                                Inl e \<Rightarrow> (self5, Some e)
                              | Inr low \<Rightarrow>
                                  let self6 = self5(''encapsulate'' \<mapsto>
                                                PyBool (low = ''true'' \<or> low = ''on''))
                                  in if r \<notin> {0, 90}
                                     then (self6, Some (ValueError (''psopt rotate value '' @ str_of_int r
                                                                    @ '' is not implemented'')))
                                     else (self6, None)))))"

subsection \<open>Encapsulation (\<^verbatim>\<open>generate_dicom_from_pdf\<close>)\<close>

definition generate_dicom_from_pdf :: "sysenv \<Rightarrow> filehandle \<Rightarrow> FileDataset" where
  "generate_dicom_from_pdf env f =
     (let suffix = ''.dcm'';
          fname = NamedTemporaryFile env suffix;
          fm = \<lparr>MediaStorageSOPClassUID = ''1.2.840.10008.5.1.4.1.1.104.1'',
                MediaStorageSOPInstanceUID = ''2.16.840.1.114430.287196081618142314176776725491661159509.60.1'',
                ImplementationClassUID = ''1.3.46.670589.50.1.8.0'',
                TransferSyntaxUID = ''1.2.840.10008.1.2.1''\<rparr>;
          f_read = content f;
          ValueLength = length f_read;
          f_read = (if ValueLength mod 2 \<noteq> 0 then f_read @ [0] else f_read)
      in \<lparr>filename = fname,
          meta = fm,
          preamble = replicate 128 0,
          is_little_endian = True,
          is_implicit_VR = False,
          StudyDate = now_strftime env ''%Y%m%d'',
          StudyTime = now_strftime env ''%H%M%S.%f'',
          ContentDate = now_strftime env ''%Y%m%d'',
          ContentTime = now_strftime env ''%H%M%S.%f'',
          AcquisitionDateTime = ''19700101'',
          Manufacturer = ''imagedata'',
          ReferringPhysicianName = [],
          SOPClassUID = ''1.2.840.10008.5.1.4.1.1.104.1'',
          EncapsulatedDocument = f_read,
          MIMETypeOfEncapsulatedDocument = ''application/pdf'',
          Modality = ''DOC'',
          ConversionType = ''WSD'',
          SpecificCharacterSet = ''ISO_IR 100'',
          BurnedInAnnotation = ''YES'',
          RecognizableVisualFeatures = ''YES'',
          DocumentTitle = [],
          VerificationFlag = ''UNVERIFIED'',
          InstanceNumber = 1,
          ConceptNameCodeSequence = []\<rparr>)"

subsection \<open>Rasterization (\<^verbatim>\<open>_read_image\<close>, lines 95 to 123)\<close>

text \<open>The loop of lines 110 to 112: \<^verbatim>\<open>si[i] = img\<close> for each page in turn.\<close>

fun stack_loop :: "ndarray \<Rightarrow> nat \<Rightarrow> image list \<Rightarrow> error + ndarray" where
  "stack_loop si i [] = Inr si"
| "stack_loop si i (img # rest) =
     (case setitem si i img of
        Inl e \<Rightarrow> Inl e
      | Inr si' \<Rightarrow> stack_loop si' (Suc i) rest)"

text \<open>Lines 104 to 112: the buffer is sized from the first page and filled.\<close>

definition stack_pages :: "image list \<Rightarrow> error + ndarray" where
  "stack_pages image_list =
     (if length image_list < 1 then Inl (ValueError ''No image data read'')
      else let img = hd image_list;
               shp = [length image_list, height img, width img, 3];
               si = np_zeros shp uint8
           in stack_loop si 0 image_list)"

text \<open>
  Lines 117 to 121: the rotation, and the reshaping of a single page, which is guarded
  by \<^verbatim>\<open>si.ndim == 3 and si.shape[0] == 1\<close>.
\<close>

definition finish_array :: "PDFPlugin \<Rightarrow> ndarray \<Rightarrow> ndarray" where
  "finish_array self si0 =
     (let si1 = (if self ''rotate'' = Some (PyInt 90) then rot90 si0 else si0)
      in if ndim si1 = 3 \<and> hd (shape si1) = 1 then drop_leading si1 else si1)"

definition rasterize ::
  "sysenv \<Rightarrow> PDFPlugin \<Rightarrow> filehandle \<Rightarrow> header \<Rightarrow> header \<times> (error + ndarray)" where
  "rasterize env self f hdr =
     (case convert_from_bytes env (content f) of
        Inl e \<Rightarrow>
          (hdr, Inl (if is_NotImageError e
                     then NotImageError (repr f @ '' does not look like a PostScript file'')
                     else e))
      | Inr image_list \<Rightarrow>
          (case stack_pages image_list of
             Inl e \<Rightarrow> (hdr, Inl e)
           | Inr si \<Rightarrow>
               (hdr\<lparr>spacing := (1, 1, 1), photometricInterpretation := ''RGB'', color := True\<rparr>,
                Inr (finish_array self si))))"

subsection \<open>\<^verbatim>\<open>_read_image\<close>\<close>

text \<open>
  The method returns \<^verbatim>\<open>(hdr, None)\<close> when it encapsulates and \<^verbatim>\<open>(True, si)\<close> when
  it rasterizes.
\<close>

datatype retval = Ret_hdr_None | Ret_True_si ndarray

definition read_image ::
  "sysenv \<Rightarrow> PDFPlugin \<Rightarrow> filehandle \<Rightarrow> (string \<rightharpoonup> pyval) \<Rightarrow> header
     \<Rightarrow> PDFPlugin \<times> header \<times> (error + retval)" where
  "read_image env self f opts hdr =
     (if \<not> POPPLER_INSTALLED env then (self, hdr, Inl (OSError ''Poppler is not installed''))
      else (case read_options self opts of
              (self', Some e) \<Rightarrow> (self', hdr, Inl e)
            | (self', None) \<Rightarrow>
                (case getattr self' ''encapsulate'' of
                   Inl e \<Rightarrow> (self', hdr, Inl e)
                 | Inr enc \<Rightarrow>
                     if truthy enc
                     then let ds = generate_dicom_from_pdf env f
                          in (self',
                              hdr\<lparr>DicomHeaderDict := [[(None, None, ds)]], tags := TagList [[0]]\<rparr>,
                              Inr Ret_hdr_None)
                     else (case rasterize env self' f hdr of
                             (hdr', Inl e) \<Rightarrow> (self', hdr', Inl e)
                           | (hdr', Inr si) \<Rightarrow> (self', hdr', Inr (Ret_True_si si))))))"

text \<open>
  A read in a running program: \<^verbatim>\<open>pdfplugin.py\<close> imports \<^verbatim>\<open>POPPLER_INSTALLED\<close> from the
  package, so the probe of \<^verbatim>\<open>__init__.py\<close> runs first. When the probe raises, the import
  fails and no read takes place; otherwise the read sees the flag the probe recorded.
\<close>

definition read_after_import ::
  "call_outcome \<Rightarrow> sysenv \<Rightarrow> PDFPlugin \<Rightarrow> filehandle \<Rightarrow> (string \<rightharpoonup> pyval) \<Rightarrow> header
     \<Rightarrow> error + (PDFPlugin \<times> header \<times> (error + retval))" where
  "read_after_import out env self f opts hdr =
     (case probe_poppler out of
        Inl e \<Rightarrow> Inl e
      | Inr flag \<Rightarrow> Inr (read_image (env\<lparr>POPPLER_INSTALLED := flag\<rparr>) self f opts hdr))"

subsection \<open>\<^verbatim>\<open>_set_tags\<close>\<close>

text \<open>
  The axes and tags derived from an array (lines 150 to 196). The arguments
  \<^verbatim>\<open>self\<close> and \<^verbatim>\<open>image_list\<close> are not read. \<^verbatim>\<open>_actual_shape[-2]\<close> raises
  \<^verbatim>\<open>IndexError\<close> when fewer than two extents remain.
\<close>

definition set_tags :: "header \<Rightarrow> ndarray \<Rightarrow> header \<times> error option" where
  "set_tags hdr0 si =
     (let hdr = hdr0\<lparr>spacing := (1, 1, 1),
                     imagePositions := [(0, [0, 0, 0])],
                     orientation := [0, 1, 0, - 1, 0, 0]\<rparr>;
          actual_shape = (if color hdr then butlast (shape si) else shape si);
          actual_ndim = length actual_shape
      in if actual_ndim < 2 then (hdr, Some (IndexError ''tuple index out of range''))
         else
           let axes0 = [UniformLengthAxis ''row'' 0 (actual_shape ! (actual_ndim - 2)) 1,
                        UniformLengthAxis ''column'' 0 (actual_shape ! (actual_ndim - 1)) 1];
               nz = (if actual_ndim > 2 then actual_shape ! (actual_ndim - 3) else 1);
               axes1 = (if actual_ndim > 2 then UniformLengthAxis ''slice'' 0 nz 1 # axes0 else axes0);
               axes2 = (if color hdr then axes1 @ [VariableAxis ''rgb'' [''r'', ''g'', ''b'']] else axes1)
           in (hdr\<lparr>axes := axes2, tags := TagDict (map (\<lambda>s. (s, [0])) [0..<nz])\<rparr>, None))"

subsection \<open>Writing\<close>

definition write_3d_numpy ::
  "PDFPlugin \<Rightarrow> ndarray \<Rightarrow> (string \<rightharpoonup> pyval) \<Rightarrow> (string \<rightharpoonup> pyval) \<Rightarrow> PDFPlugin \<times> (error + unit)" where
  "write_3d_numpy self si destination opts =
     (self, Inl (WriteNotImplemented ''Writing PDF files is not implemented.''))"

definition write_4d_numpy ::
  "PDFPlugin \<Rightarrow> ndarray \<Rightarrow> (string \<rightharpoonup> pyval) \<Rightarrow> (string \<rightharpoonup> pyval) \<Rightarrow> PDFPlugin \<times> (error + unit)" where
  "write_4d_numpy self si destination opts =
     (self, Inl (WriteNotImplemented ''Writing PDF files is not implemented.''))"

subsection \<open>Concrete inputs\<close>

text \<open>
  A renderer that returns the given pages, a clock that answers with the format it is
  asked for, an empty header, a five-byte document and a blank page; the page size
  2339 by 1653 is the one the repository's tests expect.
\<close>

definition test_env :: "bool \<Rightarrow> image list \<Rightarrow> sysenv" where
  "test_env installed pages =
     \<lparr>POPPLER_INSTALLED = installed,
      convert_from_bytes = (\<lambda>b. Inr pages),
      now_strftime = (\<lambda>fmt. fmt),
      NamedTemporaryFile = (\<lambda>suffix. ''/tmp/tmp'' @ suffix)\<rparr>"

definition test_hdr :: header where
  "test_hdr =
     \<lparr>spacing = (0, 0, 0), photometricInterpretation = [], color = False,
      DicomHeaderDict = [], tags = TagList [], imagePositions = [], orientation = [],
      axes = []\<rparr>"

definition test_file :: filehandle where
  "test_file = \<lparr>repr = ''A_Lovers_Complaint_1.pdf'', content = [0x25, 0x50, 0x44, 0x46, 0x2D]\<rparr>"

definition blank_page :: "nat \<Rightarrow> nat \<Rightarrow> image" where
  "blank_page h w = \<lparr>height = h, width = w, px = (\<lambda>r k ch. 255)\<rparr>"

text \<open>Options that hold the given option string.\<close>

definition test_opts :: "string \<Rightarrow> (string \<rightharpoonup> pyval)" where
  "test_opts s = [''pdfopt'' \<mapsto> PyStr s]"

section \<open>Properties\<close>

subsection \<open>Stacking, rotation and axes\<close>

lemma setitem_same_size:
  assumes "shape si = [n, h, w, 3]" and "i < n" and "height img = h" and "width img = w"
  shows "\<exists>si'. setitem si i img = Inr si' \<and> shape si' = shape si \<and> dtype si' = dtype si
           \<and> (\<forall>p r k ch. r < h \<longrightarrow> k < w \<longrightarrow>
                 item si' [p, r, k, ch] = (if p = i then px img r k ch else item si [p, r, k, ch]))"
  using assms by (auto simp: setitem_def)

lemma stack_loop_same_size:
  assumes "shape si = [n, h, w, 3]" and "i + length pages \<le> n"
    and "\<forall>p \<in> set pages. height p = h \<and> width p = w"
  shows "\<exists>si'. stack_loop si i pages = Inr si' \<and> shape si' = shape si \<and> dtype si' = dtype si
           \<and> (\<forall>p r k ch. r < h \<longrightarrow> k < w \<longrightarrow>
                 item si' [p, r, k, ch] =
                   (if i \<le> p \<and> p < i + length pages then px (pages ! (p - i)) r k ch
                    else item si [p, r, k, ch]))"
  using assms
proof (induction pages arbitrary: si i)
  case Nil
  then show ?case by auto
next
  case (Cons img rest)
  from Cons.prems have i: "i < n" and sz: "height img = h" "width img = w" by auto
  from setitem_same_size [OF Cons.prems(1) i sz]
  obtain si1 where s1: "setitem si i img = Inr si1" "shape si1 = shape si" "dtype si1 = dtype si"
    and it1: "\<And>p r k ch. r < h \<Longrightarrow> k < w \<Longrightarrow>
                 item si1 [p, r, k, ch] = (if p = i then px img r k ch else item si [p, r, k, ch])"
    by blast
  have sh1: "shape si1 = [n, h, w, 3]" using s1 Cons.prems(1) by simp
  have le: "Suc i + length rest \<le> n" using Cons.prems(2) by simp
  have all: "\<forall>p \<in> set rest. height p = h \<and> width p = w" using Cons.prems(3) by simp
  from Cons.IH [OF sh1 le all]
  obtain si2 where s2: "stack_loop si1 (Suc i) rest = Inr si2" "shape si2 = shape si1"
      "dtype si2 = dtype si1"
    and it2: "\<And>p r k ch. r < h \<Longrightarrow> k < w \<Longrightarrow>
                 item si2 [p, r, k, ch] =
                   (if Suc i \<le> p \<and> p < Suc i + length rest then px (rest ! (p - Suc i)) r k ch
                    else item si1 [p, r, k, ch])"
    by blast
  have res: "stack_loop si i (img # rest) = Inr si2" using s1 s2 by simp
  have items: "\<forall>p r k ch. r < h \<longrightarrow> k < w \<longrightarrow>
                 item si2 [p, r, k, ch] =
                   (if i \<le> p \<and> p < i + length (img # rest) then px ((img # rest) ! (p - i)) r k ch
                    else item si [p, r, k, ch])"
  proof (intro allI impI)
    fix p r k ch assume r: "r < h" and k: "k < w"
    show "item si2 [p, r, k, ch] =
            (if i \<le> p \<and> p < i + length (img # rest) then px ((img # rest) ! (p - i)) r k ch
             else item si [p, r, k, ch])"
    proof (cases "p = i")
      case True
      then show ?thesis using it2 [OF r k, of p ch] it1 [OF r k, of p ch] by simp
    next
      case False
      show ?thesis
      proof (cases "Suc i \<le> p \<and> p < Suc i + length rest")
        case True
        then have "(img # rest) ! (p - i) = rest ! (p - Suc i)"
          by (simp add: nth_Cons')
        moreover have "i \<le> p \<and> p < i + length (img # rest)" using True by auto
        moreover have "item si2 [p, r, k, ch] = px (rest ! (p - Suc i)) r k ch"
          using True it2 [OF r k, of p ch] by auto
        ultimately show ?thesis by auto
      next
        case F2: False
        then have out: "\<not> (i \<le> p \<and> p < i + length (img # rest))" using False by auto
        have "item si2 [p, r, k, ch] = item si1 [p, r, k, ch]"
          using F2 it2 [OF r k, of p ch] by auto
        also have "\<dots> = item si [p, r, k, ch]"
          using False it1 [OF r k, of p ch] by auto
        finally show ?thesis using out by auto
      qed
    qed
  qed
  show ?case using res s2 s1 items by auto
qed

lemma stack_pages_same_size:
  assumes "pages \<noteq> []"
    and "\<forall>p \<in> set pages. height p = height (hd pages) \<and> width p = width (hd pages)"
  shows "\<exists>si. stack_pages pages = Inr si
           \<and> shape si = [length pages, height (hd pages), width (hd pages), 3]
           \<and> dtype si = uint8
           \<and> (\<forall>i r k ch. i < length pages \<longrightarrow> r < height (hd pages) \<longrightarrow> k < width (hd pages) \<longrightarrow>
                 item si [i, r, k, ch] = px (pages ! i) r k ch)"
proof -
  let ?z = "np_zeros [length pages, height (hd pages), width (hd pages), 3] uint8"
  have sh: "shape ?z = [length pages, height (hd pages), width (hd pages), 3]"
    by (simp add: np_zeros_def)
  have le: "0 + length pages \<le> length pages" by simp
  from stack_loop_same_size [OF sh le assms(2)]
  obtain si where s: "stack_loop ?z 0 pages = Inr si" "shape si = shape ?z" "dtype si = dtype ?z"
    and it: "\<And>p r k ch. r < height (hd pages) \<Longrightarrow> k < width (hd pages) \<Longrightarrow>
               item si [p, r, k, ch] =
                 (if 0 \<le> p \<and> p < 0 + length pages then px (pages ! (p - 0)) r k ch
                  else item ?z [p, r, k, ch])"
    by blast
  have "stack_pages pages = Inr si"
    using assms(1) s(1) by (simp add: stack_pages_def Let_def)
  moreover have "dtype si = uint8" using s(3) by (simp add: np_zeros_def)
  ultimately show ?thesis using s(2) sh it by auto
qed

lemma finish_array_4d:
  assumes "shape si = [n, h, w, c]"
  shows "finish_array self si = (if self ''rotate'' = Some (PyInt 90) then rot90 si else si)"
  using assms by (simp add: finish_array_def ndim_def rot90_def Let_def)

lemma shape_rot90: "shape si = [n, h, w, c] \<Longrightarrow> shape (rot90 si) = [n, w, h, c]"
  by (simp add: rot90_def)

lemma item_rot90:
  "shape si = [n, h, w, c] \<Longrightarrow> item (rot90 si) [p, a, b, ch] = item si [p, b, w - 1 - a, ch]"
  by (simp add: rot90_def)

lemma dtype_rot90: "dtype (rot90 si) = dtype si"
  by (simp add: rot90_def split: list.splits)

lemma set_tags_color_4d:
  assumes "color hdr" and "shape si = [n, r, k, c]"
  shows "snd (set_tags hdr si) = None"
    and "axes (fst (set_tags hdr si)) =
           [UniformLengthAxis ''slice'' 0 n 1, UniformLengthAxis ''row'' 0 r 1,
            UniformLengthAxis ''column'' 0 k 1, VariableAxis ''rgb'' [''r'', ''g'', ''b'']]"
    and "tags (fst (set_tags hdr si)) = TagDict (map (\<lambda>s. (s, [0])) [0..<n])"
  using assms by (simp_all add: set_tags_def Let_def)

lemma set_tags_color_3d:
  assumes "color hdr" and "shape si = [r, k, c]"
  shows "snd (set_tags hdr si) = None"
    and "axes (fst (set_tags hdr si)) =
           [UniformLengthAxis ''row'' 0 r 1,
            UniformLengthAxis ''column'' 0 k 1, VariableAxis ''rgb'' [''r'', ''g'', ''b'']]"
  using assms by (simp_all add: set_tags_def Let_def)


subsection \<open>The option loop and the branches of the read\<close>

lemma str_split_not_Nil: "str_split sep s \<noteq> []"
  by (induction s) (auto split: list.splits)

lemma pdfopt_loop_error_is_ValueError:
  "snd (pdfopt_loop self es) = Some e \<Longrightarrow> is_ValueError e"
  by (induction self es rule: pdfopt_loop.induct) (auto split: list.splits if_splits)




lemma read_image_options_error:
  assumes "POPPLER_INSTALLED env" and "snd (read_options self opts) = Some e"
  shows "read_image env self f opts hdr = (fst (read_options self opts), hdr, Inl e)"
  using assms by (cases "read_options self opts") (simp add: read_image_def)

lemma read_image_encapsulates:
  assumes "POPPLER_INSTALLED env" and "read_options self opts = (self', None)"
    and "self' ''encapsulate'' = Some (PyBool True)"
  shows "read_image env self f opts hdr =
           (self',
            hdr\<lparr>DicomHeaderDict := [[(None, None, generate_dicom_from_pdf env f)]],
                tags := TagList [[0]]\<rparr>,
            Inr Ret_hdr_None)"
  using assms by (simp add: read_image_def getattr_def Let_def)

lemma read_image_rasterizes:
  assumes "POPPLER_INSTALLED env" and "read_options self opts = (self', None)"
    and "self' ''encapsulate'' = Some (PyBool False)"
    and "convert_from_bytes env (content f) = Inr pages"
    and "stack_pages pages = Inr si"
  shows "read_image env self f opts hdr =
           (self',
            hdr\<lparr>spacing := (1, 1, 1), photometricInterpretation := ''RGB'', color := True\<rparr>,
            Inr (Ret_True_si (finish_array self' si)))"
  using assms by (simp add: read_image_def rasterize_def getattr_def Let_def)

section \<open>The claims\<close>

text \<open>The options of the repository's encapsulation test, on a new instance.\<close>

lemma test_opts_encapsulate:
  "read_options fresh_plugin [''pdfopt'' \<mapsto> PyStr ''encapsulate=True''] =
     ([''dpi'' \<mapsto> PyInt 150, ''rotate'' \<mapsto> PyInt 0, ''encapsulate'' \<mapsto> PyBool True], None)"
  by (simp add: read_options_def parse_pdfopt_def legal_attributes_def int_attr_def getattr_def
        encapsulate_lower_def lower_def char_lower_def fresh_plugin_def Let_def char_of_eq_iff)

text \<open>
  C4. Both write entry points raise \<^verbatim>\<open>WriteNotImplemented\<close> for every array,
  destination and option set, and leave the plugin instance as it was.
\<close>

theorem write_not_implemented:
  "write_3d_numpy self si destination opts =
      (self, Inl (WriteNotImplemented ''Writing PDF files is not implemented.''))
   \<and> write_4d_numpy self si destination opts =
      (self, Inl (WriteNotImplemented ''Writing PDF files is not implemented.''))"
  by (simp add: write_3d_numpy_def write_4d_numpy_def)

text \<open>
  C7. When the availability flag is false, the read raises \<^verbatim>\<open>OSError\<close>
  ("Poppler is not installed") at once: the instance and the header are returned
  untouched, whatever the options, the document and the renderer are.
\<close>

theorem read_fails_without_poppler:
  assumes "\<not> POPPLER_INSTALLED env"
  shows "read_image env self f opts hdr = (self, hdr, Inl (OSError ''Poppler is not installed''))"
  using assms by (simp add: read_image_def)

theorem read_fails_without_poppler_witness:
  "\<not> POPPLER_INSTALLED (test_env False [blank_page 2339 1653])
   \<and> read_image (test_env False [blank_page 2339 1653]) fresh_plugin test_file
        [''pdfopt'' \<mapsto> PyStr ''dpi=300''] test_hdr
      = (fresh_plugin, test_hdr, Inl (OSError ''Poppler is not installed''))"
proof -
  have h: "\<not> POPPLER_INSTALLED (test_env False [blank_page 2339 1653])"
    by (simp add: test_env_def)
  show ?thesis
    using h read_fails_without_poppler [OF h, of fresh_plugin test_file
        "[''pdfopt'' \<mapsto> PyStr ''dpi=300'']" test_hdr]
    by simp
qed

text \<open>
  The flag is tested before the choice between encapsulation and rasterization: with
  the flag false a read whose options select encapsulation raises \<^verbatim>\<open>OSError\<close> as well,
  although with the flag true the same read returns the encapsulated document whatever
  the renderer is.
\<close>

lemma encapsulation_needs_poppler_flag:
  assumes "\<not> POPPLER_INSTALLED env"
    and "read_options self opts = (self', None)"
    and "self' ''encapsulate'' = Some (PyBool True)"
  shows "snd (snd (read_image env self f opts hdr)) = Inl (OSError ''Poppler is not installed'')
         \<and> (\<forall>conv. snd (snd (read_image (env\<lparr>POPPLER_INSTALLED := True, convert_from_bytes := conv\<rparr>)
                               self f opts hdr)) = Inr Ret_hdr_None)"
proof -
  have "snd (snd (read_image env self f opts hdr)) = Inl (OSError ''Poppler is not installed'')"
    using assms(1) by (simp add: read_image_def)
  moreover have "\<forall>conv. snd (snd (read_image (env\<lparr>POPPLER_INSTALLED := True, convert_from_bytes := conv\<rparr>)
                               self f opts hdr)) = Inr Ret_hdr_None"
    using assms(2,3) by (simp add: read_image_def getattr_def Let_def)
  ultimately show ?thesis by simp
qed

text \<open>
  C3. When the options select encapsulation, the read returns the header holding one
  dataset whose \<^verbatim>\<open>EncapsulatedDocument\<close> has even length and starts with the bytes
  read: it is the input when the input length is even, and the input followed by one
  zero byte when it is odd.
\<close>

theorem encapsulated_document_padded:
  assumes "POPPLER_INSTALLED env"
    and "read_options self opts = (self', None)"
    and "self' ''encapsulate'' = Some (PyBool True)"
  shows "\<exists>hdr' ds. read_image env self f opts hdr = (self', hdr', Inr Ret_hdr_None)
           \<and> DicomHeaderDict hdr' = [[(None, None, ds)]]
           \<and> ds = generate_dicom_from_pdf env f
           \<and> even (length (EncapsulatedDocument ds))
           \<and> take (length (content f)) (EncapsulatedDocument ds) = content f
           \<and> EncapsulatedDocument ds =
               (if even (length (content f)) then content f else content f @ [0])"
proof -
  let ?ds = "generate_dicom_from_pdf env f"
  have doc: "EncapsulatedDocument ?ds =
               (if even (length (content f)) then content f else content f @ [0])"
    by (simp add: generate_dicom_from_pdf_def Let_def even_iff_mod_2_eq_zero)
  have ev: "even (length (EncapsulatedDocument ?ds))"
    unfolding doc by simp
  have pre: "take (length (content f)) (EncapsulatedDocument ?ds) = content f"
    unfolding doc by simp
  show ?thesis
    using read_image_encapsulates [OF assms, of f hdr] doc ev pre by simp
qed

theorem encapsulated_document_padded_witness:
  "POPPLER_INSTALLED (test_env True [])
   \<and> read_options fresh_plugin [''pdfopt'' \<mapsto> PyStr ''encapsulate=True''] =
       ([''dpi'' \<mapsto> PyInt 150, ''rotate'' \<mapsto> PyInt 0, ''encapsulate'' \<mapsto> PyBool True], None)
   \<and> (\<exists>hdr' ds. snd (read_image (test_env True []) fresh_plugin test_file
                        [''pdfopt'' \<mapsto> PyStr ''encapsulate=True''] test_hdr) = (hdr', Inr Ret_hdr_None)
         \<and> DicomHeaderDict hdr' = [[(None, None, ds)]]
         \<and> EncapsulatedDocument ds = [0x25, 0x50, 0x44, 0x46, 0x2D, 0])"
proof -
  have h: "POPPLER_INSTALLED (test_env True [])"
    by (simp add: test_env_def)
  have e: "([''dpi'' \<mapsto> PyInt 150, ''rotate'' \<mapsto> PyInt 0, ''encapsulate'' \<mapsto> PyBool True]
           :: PDFPlugin) ''encapsulate'' = Some (PyBool True)"
    by simp
  from encapsulated_document_padded [OF h test_opts_encapsulate e, of test_file test_hdr]
  obtain hdr' ds where
    r: "read_image (test_env True []) fresh_plugin test_file
          [''pdfopt'' \<mapsto> PyStr ''encapsulate=True''] test_hdr
        = ([''dpi'' \<mapsto> PyInt 150, ''rotate'' \<mapsto> PyInt 0, ''encapsulate'' \<mapsto> PyBool True],
           hdr', Inr Ret_hdr_None)"
    and d: "DicomHeaderDict hdr' = [[(None, None, ds)]]"
    and c: "EncapsulatedDocument ds =
              (if even (length (content test_file)) then content test_file else content test_file @ [0])"
    by blast
  have "EncapsulatedDocument ds = [0x25, 0x50, 0x44, 0x46, 0x2D, 0]"
    using c by (simp add: test_file_def)
  then show ?thesis using h test_opts_encapsulate r d by simp
qed

text \<open>The definitions that evaluate the option code on a concrete option string.\<close>

lemmas option_defs =
  read_options_def parse_pdfopt_def legal_attributes_def int_attr_def getattr_def
  encapsulate_lower_def lower_def char_lower_def quoted_def Let_def char_of_eq_iff
  int_of_str_def strip_def is_space_def parse_decimal_def is_digit_def digit_val_def

text \<open>
  What holds of the defaults: with \<^verbatim>\<open>encapsulate\<close> given, \<^verbatim>\<open>dpi\<close> and \<^verbatim>\<open>rotate\<close>
  take 150 and 0, and a given \<^verbatim>\<open>dpi\<close> replaces its own default only.
\<close>

lemma defaults_when_encapsulate_given:
  "read_options self [''pdfopt'' \<mapsto> PyStr ''encapsulate=false''] =
     (self(''dpi'' \<mapsto> PyInt 150, ''rotate'' \<mapsto> PyInt 0, ''encapsulate'' \<mapsto> PyBool False), None)"
  by (simp add: option_defs)

lemma explicit_dpi_overrides_dpi_only:
  "read_options self [''pdfopt'' \<mapsto> PyStr ''dpi=300,encapsulate=false''] =
     (self(''dpi'' \<mapsto> PyInt 300, ''rotate'' \<mapsto> PyInt 0, ''encapsulate'' \<mapsto> PyBool False), None)"
  by (simp add: option_defs)

text \<open>
  The rotation check of line 86 is reached only after line 85 has read
  \<^verbatim>\<open>self.encapsulate\<close>: a rotation outside 0 and 90 always ends the read with an
  error, which is the \<^verbatim>\<open>ValueError\<close> of line 87 when that attribute holds a string.
\<close>

lemma rotate_outside_0_90:
  assumes "parse_pdfopt (self(''dpi'' \<mapsto> PyInt 150, ''rotate'' \<mapsto> PyInt 0)) opts = (s3, None)"
    and "int_attr s3 ''dpi'' = Inr d"
    and "int_attr s3 ''rotate'' = Inr r"
    and "r \<notin> {0, 90}"
  shows "snd (read_options self opts) =
           Some (case encapsulate_lower s3 of
                   Inl e \<Rightarrow> e
                 | Inr low \<Rightarrow> ValueError (''psopt rotate value '' @ str_of_int r @ '' is not implemented''))"
proof -
  have r': "int_attr (s3(''dpi'' \<mapsto> PyInt d)) ''rotate'' = Inr r"
    using assms(3) by (simp add: int_attr_def getattr_def)
  have e': "encapsulate_lower (s3(''dpi'' \<mapsto> PyInt d, ''rotate'' \<mapsto> PyInt r)) = encapsulate_lower s3"
    by (simp add: encapsulate_lower_def getattr_def)
  show ?thesis
    using assms(1,2,4) r' e'
    by (simp add: read_options_def Let_def split: sum.splits)
qed

text \<open>
  C1. The claim fails on the code: \<^verbatim>\<open>encapsulate\<close> is not among the attributes set
  before the option string is read. On a new instance a read without options, or with
  \<^verbatim>\<open>dpi=300\<close> alone, raises \<^verbatim>\<open>AttributeError\<close> at line 85; after a read that
  encapsulated, the attribute holds a boolean and the next read without the key raises
  \<^verbatim>\<open>AttributeError\<close> as well.
\<close>

theorem encapsulate_default_missing:
  "snd (snd (read_image (env\<lparr>POPPLER_INSTALLED := True\<rparr>) fresh_plugin f Map.empty hdr))
     = Inl (AttributeError (quoted ''PDFPlugin'' @ '' object has no attribute '' @ quoted ''encapsulate''))
   \<and> snd (snd (read_image (env\<lparr>POPPLER_INSTALLED := True\<rparr>) fresh_plugin f
                  [''pdfopt'' \<mapsto> PyStr ''dpi=300''] hdr))
     = Inl (AttributeError (quoted ''PDFPlugin'' @ '' object has no attribute '' @ quoted ''encapsulate''))
   \<and> (\<exists>self1 hdr1.
         read_image (env\<lparr>POPPLER_INSTALLED := True\<rparr>) fresh_plugin f
           [''pdfopt'' \<mapsto> PyStr ''encapsulate=True''] hdr = (self1, hdr1, Inr Ret_hdr_None)
         \<and> snd (snd (read_image (env\<lparr>POPPLER_INSTALLED := True\<rparr>) self1 f Map.empty hdr1))
             = Inl (AttributeError (quoted ''bool'' @ '' object has no attribute '' @ quoted ''lower'')))"
proof -
  let ?env = "env\<lparr>POPPLER_INSTALLED := True\<rparr>"
  have a: "read_options fresh_plugin Map.empty =
             ([''dpi'' \<mapsto> PyInt 150, ''rotate'' \<mapsto> PyInt 0],
              Some (AttributeError (quoted ''PDFPlugin'' @ '' object has no attribute '' @ quoted ''encapsulate'')))"
    by (simp add: option_defs fresh_plugin_def)
  have b: "read_options fresh_plugin [''pdfopt'' \<mapsto> PyStr ''dpi=300''] =
             ([''dpi'' \<mapsto> PyInt 300, ''rotate'' \<mapsto> PyInt 0],
              Some (AttributeError (quoted ''PDFPlugin'' @ '' object has no attribute '' @ quoted ''encapsulate'')))"
    by (simp add: option_defs fresh_plugin_def)
  have c: "read_options [''dpi'' \<mapsto> PyInt 150, ''rotate'' \<mapsto> PyInt 0, ''encapsulate'' \<mapsto> PyBool True]
             Map.empty =
             ([''dpi'' \<mapsto> PyInt 150, ''rotate'' \<mapsto> PyInt 0, ''encapsulate'' \<mapsto> PyBool True],
              Some (AttributeError (quoted ''bool'' @ '' object has no attribute '' @ quoted ''lower'')))"
    by (simp add: option_defs fun_upd_twist)
  have p: "POPPLER_INSTALLED ?env" by simp
  have 1: "snd (snd (read_image ?env fresh_plugin f Map.empty hdr))
     = Inl (AttributeError (quoted ''PDFPlugin'' @ '' object has no attribute '' @ quoted ''encapsulate''))"
    using read_image_options_error [OF p, of fresh_plugin Map.empty _ f hdr] a by simp
  have 2: "snd (snd (read_image ?env fresh_plugin f [''pdfopt'' \<mapsto> PyStr ''dpi=300''] hdr))
     = Inl (AttributeError (quoted ''PDFPlugin'' @ '' object has no attribute '' @ quoted ''encapsulate''))"
    using read_image_options_error [OF p, of fresh_plugin "[''pdfopt'' \<mapsto> PyStr ''dpi=300'']" _ f hdr] b
    by simp
  have e: "([''dpi'' \<mapsto> PyInt 150, ''rotate'' \<mapsto> PyInt 0, ''encapsulate'' \<mapsto> PyBool True]
           :: PDFPlugin) ''encapsulate'' = Some (PyBool True)"
    by simp
  note first = read_image_encapsulates [OF p test_opts_encapsulate e, of f hdr]
  have 3: "snd (snd (read_image ?env
                  [''dpi'' \<mapsto> PyInt 150, ''rotate'' \<mapsto> PyInt 0, ''encapsulate'' \<mapsto> PyBool True] f Map.empty
                  (hdr\<lparr>DicomHeaderDict := [[(None, None, generate_dicom_from_pdf ?env f)]],
                       tags := TagList [[0]]\<rparr>)))
     = Inl (AttributeError (quoted ''bool'' @ '' object has no attribute '' @ quoted ''lower''))"
    using read_image_options_error [OF p, of
        "[''dpi'' \<mapsto> PyInt 150, ''rotate'' \<mapsto> PyInt 0, ''encapsulate'' \<mapsto> PyBool True]" Map.empty _ f] c
    by simp
  show ?thesis using 1 2 first 3 by blast
qed

text \<open>
  C6. The claim fails on the code for the same reason as C1: on a new instance the
  options \<^verbatim>\<open>rotate=45\<close> end the read at line 85 with \<^verbatim>\<open>AttributeError\<close>, before the
  rotation is checked; with \<^verbatim>\<open>encapsulate\<close> given, the same rotation raises the
  \<^verbatim>\<open>ValueError\<close> of line 87.
\<close>

theorem rotate_check_behind_encapsulate:
  "snd (snd (read_image (env\<lparr>POPPLER_INSTALLED := True\<rparr>) fresh_plugin f
               [''pdfopt'' \<mapsto> PyStr ''rotate=45''] hdr))
     = Inl (AttributeError (quoted ''PDFPlugin'' @ '' object has no attribute '' @ quoted ''encapsulate''))
   \<and> snd (snd (read_image (env\<lparr>POPPLER_INSTALLED := True\<rparr>) fresh_plugin f
               [''pdfopt'' \<mapsto> PyStr ''rotate=45,encapsulate=false''] hdr))
     = Inl (ValueError ''psopt rotate value 45 is not implemented'')"
proof -
  let ?env = "env\<lparr>POPPLER_INSTALLED := True\<rparr>"
  have p: "POPPLER_INSTALLED ?env" by simp
  have a: "snd (read_options fresh_plugin [''pdfopt'' \<mapsto> PyStr ''rotate=45'']) =
             Some (AttributeError (quoted ''PDFPlugin'' @ '' object has no attribute '' @ quoted ''encapsulate''))"
    by (simp add: option_defs fresh_plugin_def)
  have b: "snd (read_options fresh_plugin [''pdfopt'' \<mapsto> PyStr ''rotate=45,encapsulate=false'']) =
             Some (ValueError ''psopt rotate value 45 is not implemented'')"
    by (simp add: option_defs fresh_plugin_def str_of_int_def)
  show ?thesis
    using read_image_options_error [OF p a, of f hdr] read_image_options_error [OF p b, of f hdr]
    by simp
qed

text \<open>
  C2. The claim fails on the code: the array built at lines 107 to 109 has four
  dimensions, so the guard \<^verbatim>\<open>si.ndim == 3\<close> of line 120 never holds and a single page
  is returned with its leading extent 1; the axes derived from that array begin with a
  slice axis of length 1.
\<close>

theorem single_page_keeps_leading_axis:
  "\<exists>hdr' si.
      snd (read_image (env\<lparr>POPPLER_INSTALLED := True, convert_from_bytes := (\<lambda>b. Inr [img])\<rparr>)
             self f [''pdfopt'' \<mapsto> PyStr ''encapsulate=false''] hdr) = (hdr', Inr (Ret_True_si si))
      \<and> shape si = [1, height img, width img, 3]
      \<and> ndim si = 4
      \<and> dtype si = uint8
      \<and> axes (fst (set_tags hdr' si)) =
          [UniformLengthAxis ''slice'' 0 1 1, UniformLengthAxis ''row'' 0 (height img) 1,
           UniformLengthAxis ''column'' 0 (width img) 1, VariableAxis ''rgb'' [''r'', ''g'', ''b'']]"
proof -
  let ?env = "env\<lparr>POPPLER_INSTALLED := True, convert_from_bytes := (\<lambda>b. Inr [img])\<rparr>"
  let ?self = "self(''dpi'' \<mapsto> PyInt 150, ''rotate'' \<mapsto> PyInt 0, ''encapsulate'' \<mapsto> PyBool False)"
  let ?hdr = "hdr\<lparr>spacing := (1, 1, 1), photometricInterpretation := ''RGB'', color := True\<rparr>"
  have p: "POPPLER_INSTALLED ?env" by simp
  have e: "?self ''encapsulate'' = Some (PyBool False)" by simp
  have c: "convert_from_bytes ?env (content f) = Inr [img]" by simp
  from stack_pages_same_size [of "[img]"]
  obtain si0 where s: "stack_pages [img] = Inr si0"
    and sh: "shape si0 = [1, height img, width img, 3]" and dt: "dtype si0 = uint8"
    by auto
  note rd0 = read_image_rasterizes [OF p defaults_when_encapsulate_given e c s, of hdr]
  have rd: "snd (read_image ?env self f [''pdfopt'' \<mapsto> PyStr ''encapsulate=false''] hdr) =
              (?hdr, Inr (Ret_True_si si0))"
    using rd0 by (simp add: finish_array_4d [OF sh])
  have col: "color ?hdr" by simp
  have ax: "axes (fst (set_tags ?hdr si0)) =
          [UniformLengthAxis ''slice'' 0 1 1, UniformLengthAxis ''row'' 0 (height img) 1,
           UniformLengthAxis ''column'' 0 (width img) 1, VariableAxis ''rgb'' [''r'', ''g'', ''b'']]"
    by (rule set_tags_color_4d(2) [OF col sh])
  have nd: "ndim si0 = 4" using sh by (simp add: ndim_def)
  show ?thesis using rd sh nd dt ax by blast
qed



text \<open>Whatever the pages are, an array that was stacked has the shape of its buffer.\<close>

lemma setitem_shape:
  "setitem si i img = Inr si' \<Longrightarrow> shape si' = shape si \<and> dtype si' = dtype si"
  by (auto simp: setitem_def split: list.splits if_splits)

lemma stack_loop_shape:
  "stack_loop si i pages = Inr si' \<Longrightarrow> shape si' = shape si \<and> dtype si' = dtype si"
proof (induction pages arbitrary: si i)
  case Nil
  then show ?case by simp
next
  case (Cons img rest)
  then obtain si1 where s1: "setitem si i img = Inr si1"
    and s2: "stack_loop si1 (Suc i) rest = Inr si'"
    by (auto split: sum.splits)
  from Cons.IH [OF s2] setitem_shape [OF s1] show ?case by simp
qed

lemma stack_pages_shape:
  assumes "stack_pages pages = Inr si"
  shows "shape si = [length pages, height (hd pages), width (hd pages), 3] \<and> dtype si = uint8"
proof -
  have "stack_loop (np_zeros [length pages, height (hd pages), width (hd pages), 3] uint8) 0 pages
          = Inr si"
    using assms by (simp add: stack_pages_def Let_def split: if_splits)
  from stack_loop_shape [OF this] show ?thesis by (simp add: np_zeros_def)
qed

lemma read_image_rasterized_from:
  assumes "POPPLER_INSTALLED env" and "read_options self opts = (self', None)"
    and "self' ''encapsulate'' = Some (PyBool False)"
    and "snd (snd (read_image env self f opts hdr)) = Inr (Ret_True_si si)"
  shows "\<exists>pages s. convert_from_bytes env (content f) = Inr pages \<and> stack_pages pages = Inr s
           \<and> si = finish_array self' s"
  using assms
  by (auto simp: read_image_def rasterize_def getattr_def Let_def split: sum.splits)

text \<open>The options of a rasterizing read with either rotation, on a new instance.\<close>

lemma test_opts_rotate_0:
  "read_options fresh_plugin [''pdfopt'' \<mapsto> PyStr ''rotate=0,encapsulate=false''] =
     ([''dpi'' \<mapsto> PyInt 150, ''rotate'' \<mapsto> PyInt 0, ''encapsulate'' \<mapsto> PyBool False], None)"
  by (simp add: option_defs fresh_plugin_def)

lemma test_opts_rotate_90:
  "read_options fresh_plugin [''pdfopt'' \<mapsto> PyStr ''rotate=90,encapsulate=false''] =
     ([''dpi'' \<mapsto> PyInt 150, ''rotate'' \<mapsto> PyInt 90, ''encapsulate'' \<mapsto> PyBool False], None)"
  by (simp add: option_defs fresh_plugin_def)

text \<open>
  Pages of different sizes: the second assignment of the loop raises numpy's
  \<^verbatim>\<open>ValueError\<close>.
\<close>

lemma stack_pages_size_mismatch:
  "stack_pages [blank_page 2 2, blank_page 3 3] =
     Inl (ValueError ''could not broadcast input array from shape (3,3,3) into shape (2,2,3)'')"
  by (simp add: stack_pages_def setitem_def np_zeros_def blank_page_def str_of_shape_def
        char_of_eq_iff Let_def)

text \<open>
  Broadcasting in the loop: a page whose height is that of the buffer or 1, and whose
  width is that of the buffer or 1, is assigned; any other page makes the loop raise.
\<close>

lemma setitem_broadcast:
  assumes "shape si = [n, h, w, 3]" and "i < n"
    and "height img = h \<or> height img = 1" and "width img = w \<or> width img = 1"
  shows "\<exists>si'. setitem si i img = Inr si' \<and> shape si' = shape si \<and> dtype si' = dtype si
           \<and> (\<forall>p r k ch. item si' [p, r, k, ch] =
                 (if p = i
                  then px img (if height img = 1 then 0 else r) (if width img = 1 then 0 else k) ch
                  else item si [p, r, k, ch]))"
  using assms by (auto simp: setitem_def)

lemma setitem_incompatible:
  assumes "shape si = [n, h, w, 3]" and "i < n"
    and "\<not> ((height img = h \<or> height img = 1) \<and> (width img = w \<or> width img = 1))"
  shows "\<exists>m. setitem si i img = Inl (ValueError m)"
  using assms by (auto simp: setitem_def)

lemma stack_loop_broadcast:
  assumes "shape si = [n, h, w, 3]" and "i + length pages \<le> n"
    and "\<forall>p \<in> set pages. (height p = h \<or> height p = 1) \<and> (width p = w \<or> width p = 1)"
  shows "\<exists>si'. stack_loop si i pages = Inr si' \<and> shape si' = shape si \<and> dtype si' = dtype si
           \<and> (\<forall>p r k ch. item si' [p, r, k, ch] =
                 (if i \<le> p \<and> p < i + length pages
                  then px (pages ! (p - i))
                         (if height (pages ! (p - i)) = 1 then 0 else r)
                         (if width (pages ! (p - i)) = 1 then 0 else k) ch
                  else item si [p, r, k, ch]))"
  using assms
proof (induction pages arbitrary: si i)
  case Nil
  then show ?case by auto
next
  case (Cons img rest)
  from Cons.prems have i: "i < n"
    and hh: "height img = h \<or> height img = 1" and ww: "width img = w \<or> width img = 1"
    by auto
  from setitem_broadcast [OF Cons.prems(1) i hh ww]
  obtain si1 where s1: "setitem si i img = Inr si1" "shape si1 = shape si" "dtype si1 = dtype si"
    and it1: "\<And>p r k ch. item si1 [p, r, k, ch] =
                 (if p = i
                  then px img (if height img = 1 then 0 else r) (if width img = 1 then 0 else k) ch
                  else item si [p, r, k, ch])"
    by blast
  have sh1: "shape si1 = [n, h, w, 3]" using s1 Cons.prems(1) by simp
  have le: "Suc i + length rest \<le> n" using Cons.prems(2) by simp
  have all: "\<forall>p \<in> set rest. (height p = h \<or> height p = 1) \<and> (width p = w \<or> width p = 1)"
    using Cons.prems(3) by simp
  from Cons.IH [OF sh1 le all]
  obtain si2 where s2: "stack_loop si1 (Suc i) rest = Inr si2" "shape si2 = shape si1"
      "dtype si2 = dtype si1"
    and it2: "\<And>p r k ch. item si2 [p, r, k, ch] =
                 (if Suc i \<le> p \<and> p < Suc i + length rest
                  then px (rest ! (p - Suc i))
                         (if height (rest ! (p - Suc i)) = 1 then 0 else r)
                         (if width (rest ! (p - Suc i)) = 1 then 0 else k) ch
                  else item si1 [p, r, k, ch])"
    by blast
  have res: "stack_loop si i (img # rest) = Inr si2" using s1 s2 by simp
  have items: "\<forall>p r k ch. item si2 [p, r, k, ch] =
                 (if i \<le> p \<and> p < i + length (img # rest)
                  then px ((img # rest) ! (p - i))
                         (if height ((img # rest) ! (p - i)) = 1 then 0 else r)
                         (if width ((img # rest) ! (p - i)) = 1 then 0 else k) ch
                  else item si [p, r, k, ch])"
  proof (intro allI)
    fix p r k ch
    show "item si2 [p, r, k, ch] =
            (if i \<le> p \<and> p < i + length (img # rest)
             then px ((img # rest) ! (p - i))
                    (if height ((img # rest) ! (p - i)) = 1 then 0 else r)
                    (if width ((img # rest) ! (p - i)) = 1 then 0 else k) ch
             else item si [p, r, k, ch])"
    proof (cases "p = i")
      case True
      then show ?thesis using it2 [of p r k ch] it1 [of p r k ch] by simp
    next
      case False
      show ?thesis
      proof (cases "Suc i \<le> p \<and> p < Suc i + length rest")
        case True
        then have nth: "(img # rest) ! (p - i) = rest ! (p - Suc i)"
          by (simp add: nth_Cons')
        have inr: "i \<le> p \<and> p < i + length (img # rest)" using True by auto
        have "item si2 [p, r, k, ch] =
                px (rest ! (p - Suc i))
                   (if height (rest ! (p - Suc i)) = 1 then 0 else r)
                   (if width (rest ! (p - Suc i)) = 1 then 0 else k) ch"
          using True it2 [of p r k ch] by auto
        then show ?thesis using inr nth by auto
      next
        case F2: False
        then have out: "\<not> (i \<le> p \<and> p < i + length (img # rest))" using False by auto
        have "item si2 [p, r, k, ch] = item si1 [p, r, k, ch]"
          using F2 it2 [of p r k ch] by auto
        also have "\<dots> = item si [p, r, k, ch]"
          using False it1 [of p r k ch] by auto
        finally show ?thesis using out by auto
      qed
    qed
  qed
  show ?case using res s2 s1 items by auto
qed

lemma stack_loop_incompatible:
  assumes "shape si = [n, h, w, 3]" and "i + length pages \<le> n"
    and "\<exists>p \<in> set pages. \<not> ((height p = h \<or> height p = 1) \<and> (width p = w \<or> width p = 1))"
  shows "\<exists>m. stack_loop si i pages = Inl (ValueError m)"
  using assms
proof (induction pages arbitrary: si i)
  case Nil
  then show ?case by simp
next
  case (Cons img rest)
  have i: "i < n" using Cons.prems(2) by simp
  show ?case
  proof (cases "(height img = h \<or> height img = 1) \<and> (width img = w \<or> width img = 1)")
    case True
    then have hh: "height img = h \<or> height img = 1" and ww: "width img = w \<or> width img = 1"
      by auto
    from setitem_broadcast [OF Cons.prems(1) i hh ww]
    obtain si1 where s1: "setitem si i img = Inr si1" and sh: "shape si1 = shape si"
      by blast
    have sh1: "shape si1 = [n, h, w, 3]" using sh Cons.prems(1) by simp
    have le: "Suc i + length rest \<le> n" using Cons.prems(2) by simp
    have bad: "\<exists>p \<in> set rest. \<not> ((height p = h \<or> height p = 1) \<and> (width p = w \<or> width p = 1))"
      using Cons.prems(3) True by auto
    from Cons.IH [OF sh1 le bad] show ?thesis using s1 by simp
  next
    case False
    from setitem_incompatible [OF Cons.prems(1) i False] show ?thesis by auto
  qed
qed

text \<open>
  C8. For two or more pages and options that select rasterization: when every page
  has the first page's height or height 1, and the first page's width or width 1, the
  pages are stacked in their order (an extent of 1 repeated along its axis) into an
  array of shape (n, height, width, 3) of \<^verbatim>\<open>uint8\<close>, height and width being those of the
  first page; a page of the first page's size is at its index as it is; the read returns
  that array (rotated when \<^verbatim>\<open>rotate\<close> is 90), and the axes derived from the returned array
  are a slice axis of length n, the row axis, the column axis and the colour axis. For
  any other page sizes the read raises \<^verbatim>\<open>ValueError\<close> and returns no array.
\<close>

theorem pages_stacked_when_sizes_fit:
  assumes "POPPLER_INSTALLED env"
    and "read_options self opts = (self', None)"
    and "self' ''encapsulate'' = Some (PyBool False)"
    and "convert_from_bytes env (content f) = Inr pages"
    and "2 \<le> length pages"
  shows "((\<forall>p \<in> set pages. (height p = height (hd pages) \<or> height p = 1)
                         \<and> (width p = width (hd pages) \<or> width p = 1)) \<longrightarrow>
          (\<exists>si0 hdr'.
             stack_pages pages = Inr si0
             \<and> shape si0 = [length pages, height (hd pages), width (hd pages), 3]
             \<and> dtype si0 = uint8
             \<and> (\<forall>i r k ch. i < length pages \<longrightarrow>
                   item si0 [i, r, k, ch] =
                     px (pages ! i) (if height (pages ! i) = 1 then 0 else r)
                        (if width (pages ! i) = 1 then 0 else k) ch)
             \<and> (\<forall>i r k ch. i < length pages \<longrightarrow> height (pages ! i) = height (hd pages) \<longrightarrow>
                   width (pages ! i) = width (hd pages) \<longrightarrow> r < height (hd pages) \<longrightarrow>
                   k < width (hd pages) \<longrightarrow> item si0 [i, r, k, ch] = px (pages ! i) r k ch)
             \<and> read_image env self f opts hdr = (self', hdr', Inr (Ret_True_si (finish_array self' si0)))
             \<and> (self' ''rotate'' = Some (PyInt 0) \<longrightarrow> finish_array self' si0 = si0)
             \<and> dtype (finish_array self' si0) = uint8
             \<and> axes (fst (set_tags hdr' (finish_array self' si0))) =
                 [UniformLengthAxis ''slice'' 0 (length pages) 1,
                  UniformLengthAxis ''row'' 0
                    (if self' ''rotate'' = Some (PyInt 90) then width (hd pages) else height (hd pages)) 1,
                  UniformLengthAxis ''column'' 0
                    (if self' ''rotate'' = Some (PyInt 90) then height (hd pages) else width (hd pages)) 1,
                  VariableAxis ''rgb'' [''r'', ''g'', ''b'']]))
         \<and> (\<not> (\<forall>p \<in> set pages. (height p = height (hd pages) \<or> height p = 1)
                              \<and> (width p = width (hd pages) \<or> width p = 1)) \<longrightarrow>
             (\<exists>m. read_image env self f opts hdr = (self', hdr, Inl (ValueError m))))"
proof (intro conjI impI)
  let ?n = "length pages" and ?h = "height (hd pages)" and ?w = "width (hd pages)"
  let ?z = "np_zeros [?n, ?h, ?w, 3] uint8"
  let ?hdr = "hdr\<lparr>spacing := (1, 1, 1), photometricInterpretation := ''RGB'', color := True\<rparr>"
  assume fit: "\<forall>p \<in> set pages. (height p = ?h \<or> height p = 1) \<and> (width p = ?w \<or> width p = 1)"
  have ne: "pages \<noteq> []" using assms(5) by auto
  have shz: "shape ?z = [?n, ?h, ?w, 3]" by (simp add: np_zeros_def)
  have le: "0 + ?n \<le> ?n" by simp
  from stack_loop_broadcast [OF shz le fit]
  obtain si0 where l: "stack_loop ?z 0 pages = Inr si0" and sh0: "shape si0 = shape ?z"
    and dt0: "dtype si0 = dtype ?z"
    and it0: "\<And>p r k ch. item si0 [p, r, k, ch] =
                 (if 0 \<le> p \<and> p < 0 + ?n
                  then px (pages ! (p - 0))
                         (if height (pages ! (p - 0)) = 1 then 0 else r)
                         (if width (pages ! (p - 0)) = 1 then 0 else k) ch
                  else item ?z [p, r, k, ch])"
    by blast
  have s: "stack_pages pages = Inr si0"
    using ne l by (simp add: stack_pages_def Let_def)
  have sh: "shape si0 = [?n, ?h, ?w, 3]" using sh0 shz by simp
  have dt: "dtype si0 = uint8" using dt0 by (simp add: np_zeros_def)
  have it: "\<forall>i r k ch. i < ?n \<longrightarrow>
              item si0 [i, r, k, ch] =
                px (pages ! i) (if height (pages ! i) = 1 then 0 else r)
                   (if width (pages ! i) = 1 then 0 else k) ch"
    using it0 by simp
  have same: "\<forall>i r k ch. i < ?n \<longrightarrow> height (pages ! i) = ?h \<longrightarrow> width (pages ! i) = ?w \<longrightarrow>
                r < ?h \<longrightarrow> k < ?w \<longrightarrow> item si0 [i, r, k, ch] = px (pages ! i) r k ch"
    using it by auto
  have rd: "read_image env self f opts hdr = (self', ?hdr, Inr (Ret_True_si (finish_array self' si0)))"
    by (rule read_image_rasterizes [OF assms(1-4) s])
  have fin: "finish_array self' si0 = (if self' ''rotate'' = Some (PyInt 90) then rot90 si0 else si0)"
    by (rule finish_array_4d [OF sh])
  have f0: "self' ''rotate'' = Some (PyInt 0) \<longrightarrow> finish_array self' si0 = si0"
    using fin by simp
  have fdt: "dtype (finish_array self' si0) = uint8"
    using fin dt by (simp add: dtype_rot90)
  have fsh: "shape (finish_array self' si0) =
               [?n,
                if self' ''rotate'' = Some (PyInt 90) then ?w else ?h,
                if self' ''rotate'' = Some (PyInt 90) then ?h else ?w,
                3]"
    using fin sh shape_rot90 [OF sh] by simp
  have col: "color ?hdr" by simp
  note ax = set_tags_color_4d(2) [OF col fsh]
  show "\<exists>si0 hdr'.
             stack_pages pages = Inr si0
             \<and> shape si0 = [length pages, height (hd pages), width (hd pages), 3]
             \<and> dtype si0 = uint8
             \<and> (\<forall>i r k ch. i < length pages \<longrightarrow>
                   item si0 [i, r, k, ch] =
                     px (pages ! i) (if height (pages ! i) = 1 then 0 else r)
                        (if width (pages ! i) = 1 then 0 else k) ch)
             \<and> (\<forall>i r k ch. i < length pages \<longrightarrow> height (pages ! i) = height (hd pages) \<longrightarrow>
                   width (pages ! i) = width (hd pages) \<longrightarrow> r < height (hd pages) \<longrightarrow>
                   k < width (hd pages) \<longrightarrow> item si0 [i, r, k, ch] = px (pages ! i) r k ch)
             \<and> read_image env self f opts hdr = (self', hdr', Inr (Ret_True_si (finish_array self' si0)))
             \<and> (self' ''rotate'' = Some (PyInt 0) \<longrightarrow> finish_array self' si0 = si0)
             \<and> dtype (finish_array self' si0) = uint8
             \<and> axes (fst (set_tags hdr' (finish_array self' si0))) =
                 [UniformLengthAxis ''slice'' 0 (length pages) 1,
                  UniformLengthAxis ''row'' 0
                    (if self' ''rotate'' = Some (PyInt 90) then width (hd pages) else height (hd pages)) 1,
                  UniformLengthAxis ''column'' 0
                    (if self' ''rotate'' = Some (PyInt 90) then height (hd pages) else width (hd pages)) 1,
                  VariableAxis ''rgb'' [''r'', ''g'', ''b'']]"
    using s sh dt it same rd f0 fdt ax by blast
next
  let ?n = "length pages" and ?h = "height (hd pages)" and ?w = "width (hd pages)"
  let ?z = "np_zeros [?n, ?h, ?w, 3] uint8"
  assume unfit: "\<not> (\<forall>p \<in> set pages. (height p = ?h \<or> height p = 1) \<and> (width p = ?w \<or> width p = 1))"
  have ne: "pages \<noteq> []" using assms(5) by auto
  have shz: "shape ?z = [?n, ?h, ?w, 3]" by (simp add: np_zeros_def)
  have le: "0 + ?n \<le> ?n" by simp
  have bad: "\<exists>p \<in> set pages. \<not> ((height p = ?h \<or> height p = 1) \<and> (width p = ?w \<or> width p = 1))"
    using unfit by blast
  from stack_loop_incompatible [OF shz le bad]
  obtain m where "stack_loop ?z 0 pages = Inl (ValueError m)" by blast
  then have s: "stack_pages pages = Inl (ValueError m)"
    using ne by (simp add: stack_pages_def Let_def)
  have "read_image env self f opts hdr = (self', hdr, Inl (ValueError m))"
    using assms(1-4) s by (simp add: read_image_def rasterize_def getattr_def Let_def)
  then show "\<exists>m. read_image env self f opts hdr = (self', hdr, Inl (ValueError m))" by blast
qed

theorem pages_stacked_when_sizes_fit_witness:
  "POPPLER_INSTALLED (test_env True [blank_page 2339 1653, blank_page 2339 1653])
   \<and> read_options fresh_plugin (test_opts ''rotate=0,encapsulate=false'') =
       ([''dpi'' \<mapsto> PyInt 150, ''rotate'' \<mapsto> PyInt 0, ''encapsulate'' \<mapsto> PyBool False], None)
   \<and> convert_from_bytes (test_env True [blank_page 2339 1653, blank_page 2339 1653]) (content test_file)
       = Inr [blank_page 2339 1653, blank_page 2339 1653]
   \<and> (2::nat) \<le> length [blank_page 2339 1653, blank_page 2339 1653]
   \<and> height (blank_page 2339 1653) = 2339 \<and> width (blank_page 2339 1653) = 1653
   \<and> (\<exists>si hdr'.
         snd (read_image (test_env True [blank_page 2339 1653, blank_page 2339 1653]) fresh_plugin
                test_file (test_opts ''rotate=0,encapsulate=false'') test_hdr)
           = (hdr', Inr (Ret_True_si si))
         \<and> shape si = [2, 2339, 1653, 3]
         \<and> dtype si = uint8
         \<and> item si [1, 2338, 1652, 2] = 255
         \<and> axes (fst (set_tags hdr' si)) =
             [UniformLengthAxis ''slice'' 0 2 1, UniformLengthAxis ''row'' 0 2339 1,
              UniformLengthAxis ''column'' 0 1653 1, VariableAxis ''rgb'' [''r'', ''g'', ''b'']])"
proof -
  let ?pages = "[blank_page 2339 1653, blank_page 2339 1653]"
  let ?env = "test_env True ?pages"
  let ?self = "[''dpi'' \<mapsto> PyInt 150, ''rotate'' \<mapsto> PyInt 0, ''encapsulate'' \<mapsto> PyBool False] :: PDFPlugin"
  have h1: "POPPLER_INSTALLED ?env" by (simp add: test_env_def)
  have h2: "read_options fresh_plugin (test_opts ''rotate=0,encapsulate=false'') = (?self, None)"
    using test_opts_rotate_0 by (simp add: test_opts_def)
  have h3: "?self ''encapsulate'' = Some (PyBool False)" by simp
  have h4: "convert_from_bytes ?env (content test_file) = Inr ?pages" by (simp add: test_env_def)
  have h5: "2 \<le> length ?pages" by simp
  have hw: "height (blank_page 2339 1653) = 2339 \<and> width (blank_page 2339 1653) = 1653"
    by (simp add: blank_page_def)
  have fit: "\<forall>p \<in> set ?pages. (height p = height (hd ?pages) \<or> height p = 1)
                           \<and> (width p = width (hd ?pages) \<or> width p = 1)"
    by simp
  have r0: "?self ''rotate'' = Some (PyInt 0)" by simp
  from pages_stacked_when_sizes_fit [OF h1 h2 h3 h4 h5, of test_hdr] fit
  obtain si0 hdr' where
    sh: "shape si0 = [length ?pages, height (hd ?pages), width (hd ?pages), 3]"
    and dt: "dtype si0 = uint8"
    and it: "\<forall>i r k ch. i < length ?pages \<longrightarrow>
               item si0 [i, r, k, ch] =
                 px (?pages ! i) (if height (?pages ! i) = 1 then 0 else r)
                    (if width (?pages ! i) = 1 then 0 else k) ch"
    and rd: "read_image ?env fresh_plugin test_file (test_opts ''rotate=0,encapsulate=false'') test_hdr
             = (?self, hdr', Inr (Ret_True_si (finish_array ?self si0)))"
    and f0: "?self ''rotate'' = Some (PyInt 0) \<longrightarrow> finish_array ?self si0 = si0"
    and ax: "axes (fst (set_tags hdr' (finish_array ?self si0))) =
               [UniformLengthAxis ''slice'' 0 (length ?pages) 1,
                UniformLengthAxis ''row'' 0
                  (if ?self ''rotate'' = Some (PyInt 90) then width (hd ?pages) else height (hd ?pages)) 1,
                UniformLengthAxis ''column'' 0
                  (if ?self ''rotate'' = Some (PyInt 90) then height (hd ?pages) else width (hd ?pages)) 1,
                VariableAxis ''rgb'' [''r'', ''g'', ''b'']]"
    by blast
  have fin: "finish_array ?self si0 = si0" using f0 r0 by blast
  have rd': "snd (read_image ?env fresh_plugin test_file
               (test_opts ''rotate=0,encapsulate=false'') test_hdr)
             = (hdr', Inr (Ret_True_si si0))"
    using rd fin by simp
  have sh': "shape si0 = [2, 2339, 1653, 3]" using sh by (simp add: blank_page_def)
  have it': "item si0 [1, 2338, 1652, 2] = 255"
    using it [rule_format, of 1 2338 1652 2] by (simp add: blank_page_def)
  have ax': "axes (fst (set_tags hdr' si0)) =
             [UniformLengthAxis ''slice'' 0 2 1, UniformLengthAxis ''row'' 0 2339 1,
              UniformLengthAxis ''column'' 0 1653 1, VariableAxis ''rgb'' [''r'', ''g'', ''b'']]"
    using ax fin by (simp add: blank_page_def)
  show ?thesis
    using h1 h2 h4 h5 hw rd' sh' dt it' ax' by blast
qed

text \<open>
  The claim as it is written, for every input of two or more pages, fails where the
  second page is larger than the first: the read raises and returns no array.
\<close>

theorem two_pages_of_different_sizes_raise:
  "snd (snd (read_image (test_env True [blank_page 2 2, blank_page 3 3]) fresh_plugin test_file
               (test_opts ''encapsulate=false'') test_hdr))
     = Inl (ValueError ''could not broadcast input array from shape (3,3,3) into shape (2,2,3)'')"
proof -
  have p: "POPPLER_INSTALLED (test_env True [blank_page 2 2, blank_page 3 3])"
    by (simp add: test_env_def)
  have o: "read_options fresh_plugin (test_opts ''encapsulate=false'') =
             (fresh_plugin(''dpi'' \<mapsto> PyInt 150, ''rotate'' \<mapsto> PyInt 0, ''encapsulate'' \<mapsto> PyBool False),
              None)"
    using defaults_when_encapsulate_given [of fresh_plugin] by (simp add: test_opts_def)
  show ?thesis
    using p o stack_pages_size_mismatch
    by (simp add: read_image_def rasterize_def getattr_def test_env_def Let_def)
qed

text \<open>
  C9. For one document and one renderer, when the read with \<^verbatim>\<open>rotate\<close> 0 returns an
  array, the read with \<^verbatim>\<open>rotate\<close> 90 returns an array whose row and column extents are
  those of the first exchanged; its element at row a and column b is the element of the
  first at row b and column w - 1 - a.
\<close>

theorem rotate_90_swaps_extents:
  assumes "POPPLER_INSTALLED env"
    and "read_options selfA optsA = (sA, None)"
    and "sA ''encapsulate'' = Some (PyBool False)"
    and "sA ''rotate'' = Some (PyInt 0)"
    and "read_options selfB optsB = (sB, None)"
    and "sB ''encapsulate'' = Some (PyBool False)"
    and "sB ''rotate'' = Some (PyInt 90)"
    and "snd (snd (read_image env selfA f optsA hdr)) = Inr (Ret_True_si si0)"
  shows "\<exists>si90 n h w c.
           snd (snd (read_image env selfB f optsB hdr)) = Inr (Ret_True_si si90)
           \<and> shape si0 = [n, h, w, c]
           \<and> shape si90 = [n, w, h, c]
           \<and> (\<forall>p a b ch. item si90 [p, a, b, ch] = item si0 [p, b, w - 1 - a, ch])"
proof -
  from read_image_rasterized_from [OF assms(1,2,3,8)]
  obtain pages s where c: "convert_from_bytes env (content f) = Inr pages"
    and s: "stack_pages pages = Inr s" and si0: "si0 = finish_array sA s"
    by blast
  let ?n = "length pages" and ?h = "height (hd pages)" and ?w = "width (hd pages)"
  have sh: "shape s = [?n, ?h, ?w, 3]" using stack_pages_shape [OF s] by simp
  have a: "finish_array sA s = s" using finish_array_4d [OF sh, of sA] assms(4) by simp
  have b: "finish_array sB s = rot90 s" using finish_array_4d [OF sh, of sB] assms(7) by simp
  have rd: "snd (snd (read_image env selfB f optsB hdr)) = Inr (Ret_True_si (rot90 s))"
    using read_image_rasterizes [OF assms(1,5,6) c s, of hdr] b by simp
  have "shape si0 = [?n, ?h, ?w, 3]" using si0 a sh by simp
  moreover have "shape (rot90 s) = [?n, ?w, ?h, 3]" by (rule shape_rot90 [OF sh])
  moreover have "\<forall>p a b ch. item (rot90 s) [p, a, b, ch] = item si0 [p, b, ?w - 1 - a, ch]"
    using item_rot90 [OF sh] si0 a by simp
  ultimately show ?thesis using rd by blast
qed

theorem rotate_90_swaps_extents_witness:
  "POPPLER_INSTALLED (test_env True [blank_page 2339 1653])
   \<and> read_options fresh_plugin [''pdfopt'' \<mapsto> PyStr ''rotate=0,encapsulate=false''] =
       ([''dpi'' \<mapsto> PyInt 150, ''rotate'' \<mapsto> PyInt 0, ''encapsulate'' \<mapsto> PyBool False], None)
   \<and> read_options fresh_plugin [''pdfopt'' \<mapsto> PyStr ''rotate=90,encapsulate=false''] =
       ([''dpi'' \<mapsto> PyInt 150, ''rotate'' \<mapsto> PyInt 90, ''encapsulate'' \<mapsto> PyBool False], None)
   \<and> (\<exists>si0 si90.
         snd (snd (read_image (test_env True [blank_page 2339 1653]) fresh_plugin test_file
                     [''pdfopt'' \<mapsto> PyStr ''rotate=0,encapsulate=false''] test_hdr))
           = Inr (Ret_True_si si0)
         \<and> snd (snd (read_image (test_env True [blank_page 2339 1653]) fresh_plugin test_file
                     [''pdfopt'' \<mapsto> PyStr ''rotate=90,encapsulate=false''] test_hdr))
           = Inr (Ret_True_si si90)
         \<and> shape si0 = [1, 2339, 1653, 3]
         \<and> shape si90 = [1, 1653, 2339, 3])"
proof -
  let ?pages = "[blank_page 2339 1653]"
  let ?env = "test_env True ?pages"
  let ?sA = "[''dpi'' \<mapsto> PyInt 150, ''rotate'' \<mapsto> PyInt 0, ''encapsulate'' \<mapsto> PyBool False] :: PDFPlugin"
  let ?sB = "[''dpi'' \<mapsto> PyInt 150, ''rotate'' \<mapsto> PyInt 90, ''encapsulate'' \<mapsto> PyBool False] :: PDFPlugin"
  have h1: "POPPLER_INSTALLED ?env" by (simp add: test_env_def)
  have eA: "?sA ''encapsulate'' = Some (PyBool False)" by simp
  have rA: "?sA ''rotate'' = Some (PyInt 0)" by simp
  have eB: "?sB ''encapsulate'' = Some (PyBool False)" by simp
  have rB: "?sB ''rotate'' = Some (PyInt 90)" by simp
  have cv: "convert_from_bytes ?env (content test_file) = Inr ?pages" by (simp add: test_env_def)
  from stack_pages_same_size [of ?pages]
  obtain s where s: "stack_pages ?pages = Inr s"
    and sh: "shape s = [1, 2339, 1653, 3]"
    by (auto simp: blank_page_def)
  have r0: "snd (snd (read_image ?env fresh_plugin test_file
                     [''pdfopt'' \<mapsto> PyStr ''rotate=0,encapsulate=false''] test_hdr))
           = Inr (Ret_True_si s)"
    using read_image_rasterizes [OF h1 test_opts_rotate_0 eA cv s, of test_hdr]
    by (simp add: finish_array_4d [OF sh])
  from rotate_90_swaps_extents [OF h1 test_opts_rotate_0 eA rA test_opts_rotate_90 eB rB r0]
  obtain si90 n h w c where
    r90: "snd (snd (read_image ?env fresh_plugin test_file
                     [''pdfopt'' \<mapsto> PyStr ''rotate=90,encapsulate=false''] test_hdr))
           = Inr (Ret_True_si si90)"
    and sh0: "shape s = [n, h, w, c]" and sh90: "shape si90 = [n, w, h, c]"
    by blast
  have "shape si90 = [1, 1653, 2339, 3]" using sh sh0 sh90 by simp
  then show ?thesis
    using h1 test_opts_rotate_0 test_opts_rotate_90 r0 r90 sh by blast
qed

text \<open>
  The probe of \<^verbatim>\<open>__init__.py\<close> never yields a false flag: where \<^verbatim>\<open>pdfinfo\<close> cannot be
  run, the handler raises \<^verbatim>\<open>NameError\<close>. The theorem of C7 takes the flag as given.
\<close>

lemma probe_poppler_never_False: "probe_poppler out \<noteq> Inr False"
  by (cases out) (simp_all add: probe_poppler_def)

text \<open>
  C10. The claim fails on the code: where \<^verbatim>\<open>pdfinfo\<close> cannot be run, the handler of the
  probe names \<^verbatim>\<open>errno\<close>, which the module does not import, so the import of the package
  raises \<^verbatim>\<open>NameError\<close> and no read takes place; where the probe returns, the flag is true.
  No read fails with "Poppler is not installed" because the renderer is missing.
\<close>

theorem missing_renderer_breaks_import:
  "read_after_import (RaisedOSError eno) env self f opts hdr
     = Inl (NameError (''name '' @ quoted ''errno'' @ '' is not defined''))
   \<and> read_after_import (Returned status) env self f opts hdr
     = Inr (read_image (env\<lparr>POPPLER_INSTALLED := True\<rparr>) self f opts hdr)"
  by (simp add: read_after_import_def probe_poppler_def quoted_def)

end
